theory Spec2Isabelle
  imports Main
begin

section \<open>The list store of CineTracker: the \<open>useWatchlist\<close> hook\<close>

text \<open>
  The hook \<open>useWatchlist\<close> (hooks/useWatchlist.js) keeps one React state \<open>data\<close> with the
  three lists of a user (watchlist, watched, favorites), loads it from Firestore or from
  \<open>localStorage\<close>, and offers seven mutations that update the state first and persist it
  afterwards. The theory embeds the hook function by function. JavaScript is untyped and
  the hook stores whatever \<open>JSON.parse\<close> returns, so the state is a JavaScript value, and
  the well-shaped list states of the data model are embedded into these values.
\<close>

subsection \<open>JavaScript values\<close>

text \<open>
  Numbers are integers here (movie ids, ratings): no \<open>NaN\<close>, no fractions. An object is the
  list of its own properties in insertion order; the keys of an object are distinct.
\<close>

datatype jsval =
    JUndefined
  | JNull
  | JBool bool
  | JNum int
  | JStr string
  | JArr "jsval list"
  | JObj "(string \<times> jsval) list"

datatype error =
    TypeError       \<comment> \<open>a property read of \<open>undefined\<close> or \<open>null\<close>, a call of a non-function\<close>
  | SyntaxError     \<comment> \<open>thrown by \<open>JSON.parse\<close>\<close>
  | StorageError    \<comment> \<open>thrown by \<open>localStorage\<close>: quota exceeded, storage disabled\<close>
  | RemoteError     \<comment> \<open>a rejected Firestore call: network, permission, missing document\<close>

text \<open>
  \<open>v.k\<close> for the property names the hook reads (\<open>watchlist\<close>, \<open>watched\<close>, \<open>favorites\<close>,
  \<open>id\<close>): a TypeError on \<open>undefined\<close> and \<open>null\<close>, the property of an object, and
  \<open>undefined\<close> on every other value (none of these names is a property of a number, a
  string or an array).
\<close>

fun get_prop :: "jsval \<Rightarrow> string \<Rightarrow> error + jsval" where
  "get_prop JUndefined k = Inl TypeError"
| "get_prop JNull k = Inl TypeError"
| "get_prop (JObj fs) k = Inr (case map_of fs k of None \<Rightarrow> JUndefined | Some v \<Rightarrow> v)"
| "get_prop v k = Inr JUndefined"

text \<open>
  The receiver of \<open>.filter(...)\<close> and \<open>.map(...)\<close>: only an array has these methods; on
  every other value the call throws a TypeError.
\<close>

fun as_array :: "jsval \<Rightarrow> error + jsval list" where
  "as_array (JArr xs) = Inr xs"
| "as_array v = Inl TypeError"

text \<open>
  \<open>a === b\<close>. Primitives are compared by value. Arrays and objects are compared by
  reference; the values compared in the hook are an element of a stored list and the
  argument of the caller, which are different allocations, so the comparison is false.
\<close>

fun strict_eq :: "jsval \<Rightarrow> jsval \<Rightarrow> bool" where
  "strict_eq (JArr xs) b = False"
| "strict_eq (JObj fs) b = False"
| "strict_eq a (JArr ys) = False"
| "strict_eq a (JObj gs) = False"
| "strict_eq a b = (a = b)"

text \<open>Truthiness, as tested by \<open>||\<close> and \<open>if\<close>.\<close>

fun truthy :: "jsval \<Rightarrow> bool" where
  "truthy JUndefined = False"
| "truthy JNull = False"
| "truthy (JBool b) = b"
| "truthy (JNum n) = (n \<noteq> 0)"
| "truthy (JStr s) = (s \<noteq> [])"
| "truthy v = True"

text \<open>The decimal name of an index, for the properties of arrays and strings.\<close>

fun index_key :: "nat \<Rightarrow> string" where
  "index_key n =
     (if n < 10 then [char_of (48 + n)]
      else index_key (n div 10) @ [char_of (48 + n mod 10)])"

declare index_key.simps [simp del]

text \<open>
  The own enumerable properties that the spread \<open>{...v}\<close> copies: those of an object, the
  indexed elements of an array, the indexed characters of a string, none otherwise.
\<close>

fun own_props :: "jsval \<Rightarrow> (string \<times> jsval) list" where
  "own_props (JObj fs) = fs"
| "own_props (JArr xs) = map (\<lambda>i. (index_key i, xs ! i)) [0..<length xs]"
| "own_props (JStr s) = map (\<lambda>i. (index_key i, JStr [s ! i])) [0..<length s]"
| "own_props v = []"

text \<open>
  A property \<open>k: v\<close> written after a spread in an object literal: it replaces the value of
  an existing key in place and is appended otherwise.
\<close>

fun set_prop :: "(string \<times> jsval) list \<Rightarrow> string \<Rightarrow> jsval \<Rightarrow> (string \<times> jsval) list" where
  "set_prop [] k v = [(k, v)]"
| "set_prop ((k', v') # fs) k v =
     (if k' = k then (k, v) # fs else (k', v') # set_prop fs k v)"

text \<open>\<open>xs.filter(f)\<close> and \<open>xs.map(f)\<close> for a callback that may throw: left to right.\<close>

fun filterE :: "(jsval \<Rightarrow> error + bool) \<Rightarrow> jsval list \<Rightarrow> error + jsval list" where
  "filterE f [] = Inr []"
| "filterE f (x # xs) =
     (case f x of
        Inl e \<Rightarrow> Inl e
      | Inr b \<Rightarrow>
          (case filterE f xs of
             Inl e \<Rightarrow> Inl e
           | Inr ys \<Rightarrow> Inr (if b then x # ys else ys)))"

fun mapE :: "(jsval \<Rightarrow> error + jsval) \<Rightarrow> jsval list \<Rightarrow> error + jsval list" where
  "mapE f [] = Inr []"
| "mapE f (x # xs) =
     (case f x of
        Inl e \<Rightarrow> Inl e
      | Inr y \<Rightarrow>
          (case mapE f xs of
             Inl e \<Rightarrow> Inl e
           | Inr ys \<Rightarrow> Inr (y # ys)))"

text \<open>\<open>d.k\<close> used as the receiver of an array method.\<close>

definition list_prop :: "jsval \<Rightarrow> string \<Rightarrow> error + jsval list" where
  "list_prop d k = (case get_prop d k of Inl e \<Rightarrow> Inl e | Inr v \<Rightarrow> as_array v)"

subsection \<open>The data model: well-shaped list states\<close>

text \<open>
  The initial state of the hook documents the shape: \<open>watchlist\<close> and \<open>favorites\<close> are
  arrays of movie ids, \<open>watched\<close> is an array of objects with \<open>id\<close>, \<open>rating\<close> and
  \<open>dateWatched\<close>. A movie id is a string or a number (\<open>@param {string|number} id\<close>).
\<close>

datatype ContentId = IdNum int | IdStr string

record WatchedEntry =
  entry_id :: ContentId
  rating :: int
  dateWatched :: string

record ListState =
  watchlist :: "ContentId list"
  watched :: "WatchedEntry list"
  favorites :: "ContentId list"

fun js_of_id :: "ContentId \<Rightarrow> jsval" where
  "js_of_id (IdNum n) = JNum n"
| "js_of_id (IdStr s) = JStr s"

definition js_of_entry :: "WatchedEntry \<Rightarrow> jsval" where
  "js_of_entry e =
     JObj [(''id'', js_of_id (entry_id e)),
           (''rating'', JNum (rating e)),
           (''dateWatched'', JStr (dateWatched e))]"

definition js_of_state :: "ListState \<Rightarrow> jsval" where
  "js_of_state s =
     JObj [(''watchlist'', JArr (map js_of_id (watchlist s))),
           (''watched'', JArr (map js_of_entry (watched s))),
           (''favorites'', JArr (map js_of_id (favorites s)))]"

text \<open>\<open>{ watchlist: [], watched: [], favorites: [] }\<close>, the initial and default state.\<close>

definition empty_state :: ListState where
  "empty_state = \<lparr>watchlist = [], watched = [], favorites = []\<rparr>"

definition default_fields :: "(string \<times> jsval) list" where
  "default_fields = [(''watchlist'', JArr []), (''watched'', JArr []), (''favorites'', JArr [])]"

subsection \<open>The new state computed by each mutation\<close>

text \<open>
  Every mutation first builds \<open>newData\<close> from the \<open>data\<close> of its render:
  \<^verbatim>\<open>{ ...data, watchlist: [...data.watchlist.filter((item) => item !== id), id] }\<close>
  and the like. These are the seven object literals, one function each.
\<close>

definition addToWatchlist_newData :: "jsval \<Rightarrow> jsval \<Rightarrow> error + jsval" where
  "addToWatchlist_newData d i =
     (case list_prop d ''watchlist'' of
        Inl e \<Rightarrow> Inl e
      | Inr xs \<Rightarrow>
          Inr (JObj (set_prop (own_props d) ''watchlist''
                 (JArr (filter (\<lambda>item. \<not> strict_eq item i) xs @ [i])))))"

definition removeFromWatchlist_newData :: "jsval \<Rightarrow> jsval \<Rightarrow> error + jsval" where
  "removeFromWatchlist_newData d i =
     (case list_prop d ''watchlist'' of
        Inl e \<Rightarrow> Inl e
      | Inr xs \<Rightarrow>
          Inr (JObj (set_prop (own_props d) ''watchlist''
                 (JArr (filter (\<lambda>item. \<not> strict_eq item i) xs)))))"

text \<open>The callback \<open>(item) => item.id !== id\<close>.\<close>

definition id_differs :: "jsval \<Rightarrow> jsval \<Rightarrow> error + bool" where
  "id_differs i item =
     (case get_prop item ''id'' of Inl e \<Rightarrow> Inl e | Inr v \<Rightarrow> Inr (\<not> strict_eq v i))"

text \<open>\<open>isoString.split("T")[0]\<close>: the part before the first \<open>T\<close>.\<close>

definition date_part :: "string \<Rightarrow> string" where
  "date_part s = takeWhile (\<lambda>c. c \<noteq> CHR ''T'') s"

text \<open>
  \<open>addToWatched(id, rating = 0)\<close>: the default applies when the argument is \<open>undefined\<close>.
  \<open>now\<close> is the value of \<open>new Date().toISOString()\<close> at the call.
\<close>

definition addToWatched_newData :: "string \<Rightarrow> jsval \<Rightarrow> jsval \<Rightarrow> jsval \<Rightarrow> error + jsval" where
  "addToWatched_newData now d i r =
     (case list_prop d ''watched'' of
        Inl e \<Rightarrow> Inl e
      | Inr xs \<Rightarrow>
          (case filterE (id_differs i) xs of
             Inl e \<Rightarrow> Inl e
           | Inr ys \<Rightarrow>
               Inr (JObj (set_prop (own_props d) ''watched''
                      (JArr (ys @ [JObj [(''id'', i),
                                         (''rating'', if r = JUndefined then JNum 0 else r),
                                         (''dateWatched'', JStr (date_part now))]]))))))"

definition removeFromWatched_newData :: "jsval \<Rightarrow> jsval \<Rightarrow> error + jsval" where
  "removeFromWatched_newData d i =
     (case list_prop d ''watched'' of
        Inl e \<Rightarrow> Inl e
      | Inr xs \<Rightarrow>
          (case filterE (id_differs i) xs of
             Inl e \<Rightarrow> Inl e
           | Inr ys \<Rightarrow> Inr (JObj (set_prop (own_props d) ''watched'' (JArr ys)))))"

text \<open>The callback \<open>(item) => item.id === id ? { ...item, rating } : item\<close>.\<close>

definition with_rating :: "jsval \<Rightarrow> jsval \<Rightarrow> jsval \<Rightarrow> error + jsval" where
  "with_rating i r item =
     (case get_prop item ''id'' of
        Inl e \<Rightarrow> Inl e
      | Inr v \<Rightarrow>
          Inr (if strict_eq v i then JObj (set_prop (own_props item) ''rating'' r) else item))"

definition updateWatchedRating_newData :: "jsval \<Rightarrow> jsval \<Rightarrow> jsval \<Rightarrow> error + jsval" where
  "updateWatchedRating_newData d i r =
     (case list_prop d ''watched'' of
        Inl e \<Rightarrow> Inl e
      | Inr xs \<Rightarrow>
          (case mapE (with_rating i r) xs of
             Inl e \<Rightarrow> Inl e
           | Inr ys \<Rightarrow> Inr (JObj (set_prop (own_props d) ''watched'' (JArr ys)))))"

definition addToFavorites_newData :: "jsval \<Rightarrow> jsval \<Rightarrow> error + jsval" where
  "addToFavorites_newData d i =
     (case list_prop d ''favorites'' of
        Inl e \<Rightarrow> Inl e
      | Inr xs \<Rightarrow>
          Inr (JObj (set_prop (own_props d) ''favorites''
                 (JArr (filter (\<lambda>item. \<not> strict_eq item i) xs @ [i])))))"

definition removeFromFavorites_newData :: "jsval \<Rightarrow> jsval \<Rightarrow> error + jsval" where
  "removeFromFavorites_newData d i =
     (case list_prop d ''favorites'' of
        Inl e \<Rightarrow> Inl e
      | Inr xs \<Rightarrow>
          Inr (JObj (set_prop (own_props d) ''favorites''
                 (JArr (filter (\<lambda>item. \<not> strict_eq item i) xs)))))"

subsection \<open>The local store\<close>

text \<open>
  \<open>localStorage\<close> maps keys to strings. A stored string is represented by what the hook
  can observe of it: whether it is empty (falsy), and what \<open>JSON.parse\<close> makes of it.
\<close>

datatype blob =
    EmptyString       \<comment> \<open>the empty string\<close>
  | NotJson           \<comment> \<open>a non-empty string that \<open>JSON.parse\<close> rejects\<close>
  | JsonText jsval    \<comment> \<open>a JSON text, with the value \<open>JSON.parse\<close> returns for it\<close>

text \<open>
  The value read back from the text that \<open>JSON.stringify\<close> writes for a value: a
  property whose value is \<open>undefined\<close> is left out, an \<open>undefined\<close> array element
  becomes \<open>null\<close>.
\<close>

fun json_of :: "jsval \<Rightarrow> jsval"
  and json_elems :: "jsval list \<Rightarrow> jsval list"
  and json_props :: "(string \<times> jsval) list \<Rightarrow> (string \<times> jsval) list" where
  "json_of (JArr xs) = JArr (json_elems xs)"
| "json_of (JObj fs) = JObj (json_props fs)"
| "json_of JUndefined = JNull"
| "json_of JNull = JNull"
| "json_of (JBool b) = JBool b"
| "json_of (JNum n) = JNum n"
| "json_of (JStr s) = JStr s"
| "json_elems [] = []"
| "json_elems (x # xs) = json_of x # json_elems xs"
| "json_props [] = []"
| "json_props ((k, v) # fs) =
     (if v = JUndefined then json_props fs else (k, json_of v) # json_props fs)"

text \<open>
  \<open>JSON.stringify(v)\<close> as the argument of \<open>setItem\<close>: for \<open>undefined\<close> it returns
  \<open>undefined\<close>, which \<open>setItem\<close> stores as the string \<open>undefined\<close>.
\<close>

definition JSON_stringify :: "jsval \<Rightarrow> blob" where
  "JSON_stringify v = (if v = JUndefined then NotJson else JsonText (json_of v))"

fun JSON_parse :: "blob \<Rightarrow> error + jsval" where
  "JSON_parse (JsonText v) = Inr v"
| "JSON_parse b = Inl SyntaxError"

text \<open>
  \<open>getItem\<close> returns \<open>null\<close> (\<open>None\<close>) for a key without item. Both calls throw when the
  browser refuses them (storage disabled, quota exceeded); the flag says whether the
  browser accepts the call.
\<close>

definition getItem :: "bool \<Rightarrow> (string \<rightharpoonup> blob) \<Rightarrow> string \<Rightarrow> error + blob option" where
  "getItem ok st k = (if ok then Inr (st k) else Inl StorageError)"

definition setItem :: "bool \<Rightarrow> (string \<rightharpoonup> blob) \<Rightarrow> string \<Rightarrow> blob \<Rightarrow> error + (string \<rightharpoonup> blob)" where
  "setItem ok st k b = (if ok then Inr (st(k \<mapsto> b)) else Inl StorageError)"

subsection \<open>The remote store\<close>

text \<open>
  The Firestore collection \<open>users\<close>: a document per user id, a document being its fields.
  The three calls are those of the Firestore client library, with the behaviour its
  reference documents; the flag says whether the call reaches the server and is
  accepted. \<open>setDoc(ref, fields, { merge: true })\<close> creates the document when there is
  none; on an existing document the option \<open>merge\<close> makes the call replace only the values
  named in \<open>fields\<close>, the fields it omits remaining untouched. \<open>updateDoc(ref, fields)\<close>
  does the same to an existing document and is rejected when there is none.
\<close>

type_synonym doc = "(string \<times> jsval) list"

definition merge_fields :: "doc \<Rightarrow> doc \<Rightarrow> doc" where
  "merge_fields d fs = fold (\<lambda>(k, v) acc. set_prop acc k v) fs d"

definition getDoc :: "bool \<Rightarrow> (string \<rightharpoonup> doc) \<Rightarrow> string \<Rightarrow> error + doc option" where
  "getDoc ok db uid = (if ok then Inr (db uid) else Inl RemoteError)"

definition setDoc_merge :: "bool \<Rightarrow> (string \<rightharpoonup> doc) \<Rightarrow> string \<Rightarrow> doc \<Rightarrow> error + (string \<rightharpoonup> doc)" where
  "setDoc_merge ok db uid fs =
     (if ok
      then Inr (db(uid \<mapsto> merge_fields (case db uid of None \<Rightarrow> [] | Some d \<Rightarrow> d) fs))
      else Inl RemoteError)"

definition updateDoc :: "bool \<Rightarrow> (string \<rightharpoonup> doc) \<Rightarrow> string \<Rightarrow> doc \<Rightarrow> error + (string \<rightharpoonup> doc)" where
  "updateDoc ok db uid fs =
     (if ok
      then (case db uid of
              None \<Rightarrow> Inl RemoteError
            | Some d \<Rightarrow> Inr (db(uid \<mapsto> merge_fields d fs)))
      else Inl RemoteError)"

subsection \<open>The state of the hook\<close>

text \<open>The toasts of the hook, by title.\<close>

datatype notice =
    UsingOfflineData        \<comment> \<open>Using offline data\<close>
  | SavedLocally            \<comment> \<open>Saved locally\<close>
  | AddedToWatchlist        \<comment> \<open>Added to watchlist\<close>
  | RemovedFromWatchlist    \<comment> \<open>Removed from watchlist\<close>
  | MarkedAsWatched         \<comment> \<open>Marked as watched\<close>
  | RemovedFromWatched      \<comment> \<open>Removed from watched\<close>
  | RatingUpdated jsval     \<comment> \<open>Rating updated, with the rating of the description\<close>
  | AddedToFavorites        \<comment> \<open>Added to favorites\<close>
  | RemovedFromFavorites    \<comment> \<open>Removed from favorites\<close>

text \<open>
  A \<open>loadUserData\<close> suspended at an \<open>await\<close>, with the user id its closure captured.
\<close>

datatype task =
    AwaitGetDoc string    \<comment> \<open>at \<open>await getDoc(userDocRef)\<close>\<close>
  | AwaitSetDoc string    \<comment> \<open>at \<open>await setDoc(userDocRef, ..., { merge: true })\<close>\<close>

text \<open>
  The React state of the hook (\<open>data\<close>, \<open>loading\<close>), the values of \<open>useAuth()\<close> at the
  latest render (\<open>user\<close> as the user id, \<open>initialized\<close>), the two stores, the toasts
  shown so far, and the loads in flight.
\<close>

record hook =
  data :: jsval
  loading :: bool
  user :: "string option"
  initialized :: bool
  localStorage :: "string \<rightharpoonup> blob"
  firestore :: "string \<rightharpoonup> doc"
  toasts :: "notice list"
  inflight :: "task list"

text \<open>What the environment does to the calls of one step.\<close>

record env =
  remote_ok :: bool    \<comment> \<open>the Firestore call is accepted\<close>
  local_ok :: bool     \<comment> \<open>the \<open>localStorage\<close> call is accepted\<close>

definition mount :: "(string \<rightharpoonup> blob) \<Rightarrow> (string \<rightharpoonup> doc) \<Rightarrow> hook" where
  "mount st db =
     \<lparr>data = js_of_state empty_state, loading = True, user = None, initialized = False,
      localStorage = st, firestore = db, toasts = [], inflight = []\<rparr>"

subsection \<open>Loading\<close>

definition loadLocalData :: "bool \<Rightarrow> hook \<Rightarrow> hook" where
  "loadLocalData ok w =
     (case getItem ok (localStorage w) ''cinetracker-data'' of
        Inl e \<Rightarrow> w\<lparr>loading := False\<rparr>
      | Inr None \<Rightarrow> w\<lparr>loading := False\<rparr>
      | Inr (Some savedData) \<Rightarrow>
          if savedData = EmptyString then w\<lparr>loading := False\<rparr>
          else (case JSON_parse savedData of
                  Inl e \<Rightarrow> w\<lparr>loading := False\<rparr>
                | Inr parsed \<Rightarrow> w\<lparr>data := parsed, loading := False\<rparr>))"

text \<open>\<open>userData.k || []\<close> on the data of a document.\<close>

definition field_or_empty :: "doc \<Rightarrow> string \<Rightarrow> jsval" where
  "field_or_empty d k =
     (case map_of d k of
        None \<Rightarrow> JArr []
      | Some v \<Rightarrow> if truthy v then v else JArr [])"

text \<open>
  \<open>loadUserData\<close> runs in up to three pieces. The first ends at \<open>await getDoc\<close>; a
  failure of \<open>getDbInstance()\<close> or \<open>doc(...)\<close> before it takes the same \<open>catch\<close> as a
  rejected \<open>getDoc\<close> and is counted as one.
\<close>

definition loadUserData :: "string option \<Rightarrow> hook \<Rightarrow> hook" where
  "loadUserData usr w =
     (case usr of
        None \<Rightarrow> w
      | Some uid \<Rightarrow> w\<lparr>inflight := inflight w @ [AwaitGetDoc uid]\<rparr>)"

text \<open>The \<open>catch\<close> block of \<open>loadUserData\<close>, followed by its \<open>finally\<close>.\<close>

definition loadUserData_catch :: "bool \<Rightarrow> hook \<Rightarrow> hook" where
  "loadUserData_catch ok w =
     (let w1 = loadLocalData ok w
      in w1\<lparr>toasts := toasts w1 @ [UsingOfflineData], loading := False\<rparr>)"

text \<open>The piece after \<open>await getDoc(userDocRef)\<close>.\<close>

definition loadUserData_after_getDoc :: "env \<Rightarrow> string \<Rightarrow> hook \<Rightarrow> hook" where
  "loadUserData_after_getDoc e uid w =
     (case getDoc (remote_ok e) (firestore w) uid of
        Inl err \<Rightarrow> loadUserData_catch (local_ok e) w
      | Inr (Some userData) \<Rightarrow>
          w\<lparr>data := JObj [(''watchlist'', field_or_empty userData ''watchlist''),
                          (''watched'', field_or_empty userData ''watched''),
                          (''favorites'', field_or_empty userData ''favorites'')],
            loading := False\<rparr>
      | Inr None \<Rightarrow> w\<lparr>inflight := inflight w @ [AwaitSetDoc uid]\<rparr>)"

text \<open>The piece after \<open>await setDoc(userDocRef, ..., { merge: true })\<close>.\<close>

definition loadUserData_after_setDoc :: "env \<Rightarrow> string \<Rightarrow> hook \<Rightarrow> hook" where
  "loadUserData_after_setDoc e uid w =
     (case setDoc_merge (remote_ok e) (firestore w) uid default_fields of
        Inl err \<Rightarrow> loadUserData_catch (local_ok e) w
      | Inr db \<Rightarrow> w\<lparr>firestore := db, data := JObj default_fields, loading := False\<rparr>)"

text \<open>The body of the effect, run with the \<open>user\<close> and \<open>initialized\<close> of the render.\<close>

definition useEffect :: "bool \<Rightarrow> hook \<Rightarrow> hook" where
  "useEffect ok w =
     (if \<not> initialized w then w
      else if user w \<noteq> None then loadUserData (user w) w
      else loadLocalData ok w)"

subsection \<open>Saving and the seven mutations\<close>

text \<open>
  \<open>saveData(newData)\<close>, run to its end: the result is \<open>None\<close> when the promise is
  fulfilled and the error when it is rejected. The state is set before anything is
  awaited. Neither \<open>setItem\<close> is inside a \<open>try\<close> that catches its error. A mutation
  reads the \<open>data\<close> and the \<open>user\<close> of the render its handler closes over, taken to be
  the latest render.
\<close>

definition saveData :: "env \<Rightarrow> jsval \<Rightarrow> hook \<Rightarrow> error option \<times> hook" where
  "saveData e newData w =
     (let w1 = w\<lparr>data := newData\<rparr>
      in case user w of
           Some uid \<Rightarrow>
             (case updateDoc (remote_ok e) (firestore w1) uid (own_props newData) of
                Inr db \<Rightarrow> (None, w1\<lparr>firestore := db\<rparr>)
              | Inl err \<Rightarrow>
                  (case setItem (local_ok e) (localStorage w1) ''cinetracker-data''
                          (JSON_stringify newData) of
                     Inl err' \<Rightarrow> (Some err', w1)
                   | Inr st \<Rightarrow>
                       (None, w1\<lparr>localStorage := st, toasts := toasts w1 @ [SavedLocally]\<rparr>)))
         | None \<Rightarrow>
             (case setItem (local_ok e) (localStorage w1) ''cinetracker-data''
                     (JSON_stringify newData) of
                Inl err \<Rightarrow> (Some err, w1)
              | Inr st \<Rightarrow> (None, w1\<lparr>localStorage := st\<rparr>)))"

text \<open>The toast after \<open>await saveData(newData)\<close>: not reached when \<open>saveData\<close> rejects.\<close>

definition then_toast :: "notice \<Rightarrow> error option \<times> hook \<Rightarrow> error option \<times> hook" where
  "then_toast n r =
     (case r of
        (Some err, w) \<Rightarrow> (Some err, w)
      | (None, w) \<Rightarrow> (None, w\<lparr>toasts := toasts w @ [n]\<rparr>))"

definition addToWatchlist :: "env \<Rightarrow> jsval \<Rightarrow> hook \<Rightarrow> error option \<times> hook" where
  "addToWatchlist e i w =
     (case addToWatchlist_newData (data w) i of
        Inl err \<Rightarrow> (Some err, w)
      | Inr newData \<Rightarrow> then_toast AddedToWatchlist (saveData e newData w))"

definition removeFromWatchlist :: "env \<Rightarrow> jsval \<Rightarrow> hook \<Rightarrow> error option \<times> hook" where
  "removeFromWatchlist e i w =
     (case removeFromWatchlist_newData (data w) i of
        Inl err \<Rightarrow> (Some err, w)
      | Inr newData \<Rightarrow> then_toast RemovedFromWatchlist (saveData e newData w))"

definition addToWatched :: "env \<Rightarrow> string \<Rightarrow> jsval \<Rightarrow> jsval \<Rightarrow> hook \<Rightarrow> error option \<times> hook" where
  "addToWatched e now i r w =
     (case addToWatched_newData now (data w) i r of
        Inl err \<Rightarrow> (Some err, w)
      | Inr newData \<Rightarrow> then_toast MarkedAsWatched (saveData e newData w))"

definition removeFromWatched :: "env \<Rightarrow> jsval \<Rightarrow> hook \<Rightarrow> error option \<times> hook" where
  "removeFromWatched e i w =
     (case removeFromWatched_newData (data w) i of
        Inl err \<Rightarrow> (Some err, w)
      | Inr newData \<Rightarrow> then_toast RemovedFromWatched (saveData e newData w))"

definition updateWatchedRating :: "env \<Rightarrow> jsval \<Rightarrow> jsval \<Rightarrow> hook \<Rightarrow> error option \<times> hook" where
  "updateWatchedRating e i r w =
     (case updateWatchedRating_newData (data w) i r of
        Inl err \<Rightarrow> (Some err, w)
      | Inr newData \<Rightarrow> then_toast (RatingUpdated r) (saveData e newData w))"

definition addToFavorites :: "env \<Rightarrow> jsval \<Rightarrow> hook \<Rightarrow> error option \<times> hook" where
  "addToFavorites e i w =
     (case addToFavorites_newData (data w) i of
        Inl err \<Rightarrow> (Some err, w)
      | Inr newData \<Rightarrow> then_toast AddedToFavorites (saveData e newData w))"

definition removeFromFavorites :: "env \<Rightarrow> jsval \<Rightarrow> hook \<Rightarrow> error option \<times> hook" where
  "removeFromFavorites e i w =
     (case removeFromFavorites_newData (data w) i of
        Inl err \<Rightarrow> (Some err, w)
      | Inr newData \<Rightarrow> then_toast RemovedFromFavorites (saveData e newData w))"

text \<open>The seven mutations as one type, to speak of every mutation at once.\<close>

datatype mutation =
    AddToWatchlist jsval
  | RemoveFromWatchlist jsval
  | AddToWatched jsval jsval
  | RemoveFromWatched jsval
  | UpdateWatchedRating jsval jsval
  | AddToFavorites jsval
  | RemoveFromFavorites jsval

fun perform :: "env \<Rightarrow> string \<Rightarrow> mutation \<Rightarrow> hook \<Rightarrow> error option \<times> hook" where
  "perform e now (AddToWatchlist i) w = addToWatchlist e i w"
| "perform e now (RemoveFromWatchlist i) w = removeFromWatchlist e i w"
| "perform e now (AddToWatched i r) w = addToWatched e now i r w"
| "perform e now (RemoveFromWatched i) w = removeFromWatched e i w"
| "perform e now (UpdateWatchedRating i r) w = updateWatchedRating e i r w"
| "perform e now (AddToFavorites i) w = addToFavorites e i w"
| "perform e now (RemoveFromFavorites i) w = removeFromFavorites e i w"

fun newData_of :: "string \<Rightarrow> mutation \<Rightarrow> jsval \<Rightarrow> error + jsval" where
  "newData_of now (AddToWatchlist i) d = addToWatchlist_newData d i"
| "newData_of now (RemoveFromWatchlist i) d = removeFromWatchlist_newData d i"
| "newData_of now (AddToWatched i r) d = addToWatched_newData now d i r"
| "newData_of now (RemoveFromWatched i) d = removeFromWatched_newData d i"
| "newData_of now (UpdateWatchedRating i r) d = updateWatchedRating_newData d i r"
| "newData_of now (AddToFavorites i) d = addToFavorites_newData d i"
| "newData_of now (RemoveFromFavorites i) d = removeFromFavorites_newData d i"

text \<open>The property a mutation writes after the spread, and its confirmation toast.\<close>

fun own_list :: "mutation \<Rightarrow> string" where
  "own_list (AddToWatchlist i) = ''watchlist''"
| "own_list (RemoveFromWatchlist i) = ''watchlist''"
| "own_list (AddToWatched i r) = ''watched''"
| "own_list (RemoveFromWatched i) = ''watched''"
| "own_list (UpdateWatchedRating i r) = ''watched''"
| "own_list (AddToFavorites i) = ''favorites''"
| "own_list (RemoveFromFavorites i) = ''favorites''"

fun confirmation :: "mutation \<Rightarrow> notice" where
  "confirmation (AddToWatchlist i) = AddedToWatchlist"
| "confirmation (RemoveFromWatchlist i) = RemovedFromWatchlist"
| "confirmation (AddToWatched i r) = MarkedAsWatched"
| "confirmation (RemoveFromWatched i) = RemovedFromWatched"
| "confirmation (UpdateWatchedRating i r) = RatingUpdated r"
| "confirmation (AddToFavorites i) = AddedToFavorites"
| "confirmation (RemoveFromFavorites i) = RemovedFromFavorites"

subsection \<open>Interleavings\<close>

text \<open>
  The hook runs on one thread; between two \<open>await\<close>s nothing else happens, at an \<open>await\<close>
  anything may. An event is a change of the values of \<open>useAuth()\<close>, after which the effect
  runs, the settling of the call a load in flight awaits, or a write to the remote store
  by another client of the same user. \<open>step\<close> is \<open>None\<close> for an event that cannot happen:
  there is no such load in flight.
\<close>

datatype event =
    AuthChanged env bool "string option"    \<comment> \<open>new \<open>initialized\<close> and \<open>user\<close>; the effect runs\<close>
  | Settles env nat                         \<comment> \<open>the call awaited by the \<open>n\<close>-th load in flight settles\<close>
  | OtherClientWrites string doc            \<comment> \<open>another tab or device writes the user's document\<close>

fun resume :: "env \<Rightarrow> task \<Rightarrow> hook \<Rightarrow> hook" where
  "resume e (AwaitGetDoc uid) w = loadUserData_after_getDoc e uid w"
| "resume e (AwaitSetDoc uid) w = loadUserData_after_setDoc e uid w"

fun step :: "event \<Rightarrow> hook \<Rightarrow> hook option" where
  "step (AuthChanged e i u) w = Some (useEffect (local_ok e) (w\<lparr>initialized := i, user := u\<rparr>))"
| "step (Settles e n) w =
     (if n < length (inflight w)
      then Some (resume e (inflight w ! n)
                   (w\<lparr>inflight := take n (inflight w) @ drop (Suc n) (inflight w)\<rparr>))
      else None)"
| "step (OtherClientWrites uid d) w = Some (w\<lparr>firestore := (firestore w)(uid \<mapsto> d)\<rparr>)"

fun run :: "event list \<Rightarrow> hook \<Rightarrow> hook option" where
  "run [] w = Some w"
| "run (ev # evs) w = (case step ev w of None \<Rightarrow> None | Some w' \<Rightarrow> run evs w')"

text \<open>The document of a user in the remote store, and the item of the hook in the local store.\<close>

definition doc_of :: "string \<Rightarrow> hook \<Rightarrow> doc option" where
  "doc_of uid w = firestore w uid"

definition saved_item :: "hook \<Rightarrow> blob option" where
  "saved_item w = localStorage w ''cinetracker-data''"

subsection \<open>Sample values\<close>

definition sample_state :: ListState where
  "sample_state =
     \<lparr>watchlist = [IdNum 1, IdNum 5],
      watched = [\<lparr>entry_id = IdNum 2, rating = 7, dateWatched = ''2024-01-01''\<rparr>],
      favorites = [IdStr ''3'']\<rparr>"

definition sample_hook :: hook where
  "sample_hook = (mount Map.empty Map.empty)\<lparr>data := js_of_state sample_state\<rparr>"

definition ann_state :: ListState where
  "ann_state = \<lparr>watchlist = [IdNum 11], watched = [], favorites = [IdNum 12]\<rparr>"

definition ann_doc :: doc where
  "ann_doc =
     [(''watchlist'', JArr [JNum 11]), (''watched'', JArr []), (''favorites'', JArr [JNum 12])]"

definition guest_state :: ListState where
  "guest_state = \<lparr>watchlist = [IdNum 5], watched = [], favorites = []\<rparr>"

definition all_ok :: env where
  "all_ok = \<lparr>remote_ok = True, local_ok = True\<rparr>"

definition offline :: env where
  "offline = \<lparr>remote_ok = False, local_ok = True\<rparr>"

definition storage_full :: env where
  "storage_full = \<lparr>remote_ok = True, local_ok = False\<rparr>"

definition all_down :: env where
  "all_down = \<lparr>remote_ok = False, local_ok = False\<rparr>"

section \<open>Properties\<close>

subsection \<open>Facts about the embedding\<close>

lemma strict_eq_id [simp]: "strict_eq (js_of_id a) (js_of_id b) = (a = b)"
  by (cases a; cases b) auto

lemma filter_ids:
  "filter (\<lambda>item. \<not> strict_eq item (js_of_id x)) (map js_of_id xs) =
     map js_of_id (filter (\<lambda>i. i \<noteq> x) xs)"
  by (induction xs) auto

lemma id_differs_entry [simp]:
  "id_differs (js_of_id x) (js_of_entry e) = Inr (entry_id e \<noteq> x)"
  by (simp add: id_differs_def js_of_entry_def)

lemma filterE_entries:
  "filterE (id_differs (js_of_id x)) (map js_of_entry es) =
     Inr (map js_of_entry (filter (\<lambda>e. entry_id e \<noteq> x) es))"
  by (induction es) auto

lemma with_rating_entry [simp]:
  "with_rating (js_of_id x) (JNum r) (js_of_entry e) =
     Inr (js_of_entry (if entry_id e = x then e\<lparr>rating := r\<rparr> else e))"
  by (simp add: with_rating_def js_of_entry_def)

lemma mapE_entries:
  "mapE (with_rating (js_of_id x) (JNum r)) (map js_of_entry es) =
     Inr (map js_of_entry (map (\<lambda>e. if entry_id e = x then e\<lparr>rating := r\<rparr> else e) es))"
  by (induction es) auto


lemma removeFromWatchlist_typed:
  "removeFromWatchlist_newData (js_of_state s) (js_of_id x) =
     Inr (js_of_state (s\<lparr>watchlist := filter (\<lambda>i. i \<noteq> x) (watchlist s)\<rparr>))"
  by (simp add: removeFromWatchlist_newData_def list_prop_def js_of_state_def filter_ids)


lemma removeFromFavorites_typed:
  "removeFromFavorites_newData (js_of_state s) (js_of_id x) =
     Inr (js_of_state (s\<lparr>favorites := filter (\<lambda>i. i \<noteq> x) (favorites s)\<rparr>))"
  by (simp add: removeFromFavorites_newData_def list_prop_def js_of_state_def filter_ids)

lemma addToWatched_typed:
  "addToWatched_newData now (js_of_state s) (js_of_id x) (JNum r) =
     Inr (js_of_state (s\<lparr>watched := filter (\<lambda>e. entry_id e \<noteq> x) (watched s) @
                           [\<lparr>entry_id = x, rating = r, dateWatched = date_part now\<rparr>]\<rparr>))"
  by (simp add: addToWatched_newData_def list_prop_def js_of_state_def filterE_entries
      js_of_entry_def)

lemma removeFromWatched_typed:
  "removeFromWatched_newData (js_of_state s) (js_of_id x) =
     Inr (js_of_state (s\<lparr>watched := filter (\<lambda>e. entry_id e \<noteq> x) (watched s)\<rparr>))"
  by (simp add: removeFromWatched_newData_def list_prop_def js_of_state_def filterE_entries)

lemma updateWatchedRating_typed:
  "updateWatchedRating_newData (js_of_state s) (js_of_id x) (JNum r) =
     Inr (js_of_state (s\<lparr>watched :=
            map (\<lambda>e. if entry_id e = x then e\<lparr>rating := r\<rparr> else e) (watched s)\<rparr>))"
  by (simp add: updateWatchedRating_newData_def list_prop_def js_of_state_def mapE_entries)

subsection \<open>The state after a mutation\<close>

lemma data_saveData [simp]: "data (snd (saveData e nd w)) = nd"
  by (simp add: saveData_def Let_def split: option.splits sum.splits)

lemma data_then_toast [simp]: "data (snd (then_toast n r)) = data (snd r)"
  by (simp add: then_toast_def split: prod.splits option.splits)

lemma data_perform:
  "data (snd (perform e now m w)) =
     (case newData_of now m (data w) of Inl err \<Rightarrow> data w | Inr nd \<Rightarrow> nd)"
  by (cases m)
     (simp_all add: addToWatchlist_def removeFromWatchlist_def addToWatched_def
        removeFromWatched_def updateWatchedRating_def addToFavorites_def
        removeFromFavorites_def split: sum.splits)

lemma map_of_set_prop: "map_of (set_prop fs k v) k' = (if k' = k then Some v else map_of fs k')"
  by (induction fs) auto

lemma list_prop_JObj: "list_prop d k = Inr xs \<Longrightarrow> \<exists>fs. d = JObj fs"
  by (cases d) (simp_all add: list_prop_def)

lemma get_prop_set_prop:
  "k' \<noteq> k \<Longrightarrow> get_prop (JObj (set_prop (own_props (JObj fs)) k v)) k' = get_prop (JObj fs) k'"
  by (simp add: map_of_set_prop)

lemma newData_of_frame:
  assumes "newData_of now m d = Inr nd" and "k \<noteq> own_list m"
  shows "get_prop nd k = get_prop d k"
proof (cases m)
  case (AddToWatchlist i)
  with assms show ?thesis
    by (auto simp: addToWatchlist_newData_def map_of_set_prop split: sum.splits dest!: list_prop_JObj)
next
  case (RemoveFromWatchlist i)
  with assms show ?thesis
    by (auto simp: removeFromWatchlist_newData_def map_of_set_prop split: sum.splits dest!: list_prop_JObj)
next
  case (AddToWatched i r)
  with assms show ?thesis
    by (auto simp: addToWatched_newData_def map_of_set_prop split: sum.splits dest!: list_prop_JObj)
next
  case (RemoveFromWatched i)
  with assms show ?thesis
    by (auto simp: removeFromWatched_newData_def map_of_set_prop split: sum.splits dest!: list_prop_JObj)
next
  case (UpdateWatchedRating i r)
  with assms show ?thesis
    by (auto simp: updateWatchedRating_newData_def map_of_set_prop split: sum.splits dest!: list_prop_JObj)
next
  case (AddToFavorites i)
  with assms show ?thesis
    by (auto simp: addToFavorites_newData_def map_of_set_prop split: sum.splits dest!: list_prop_JObj)
next
  case (RemoveFromFavorites i)
  with assms show ?thesis
    by (auto simp: removeFromFavorites_newData_def map_of_set_prop split: sum.splits dest!: list_prop_JObj)
qed

subsection \<open>Each mutation writes one list only\<close>

text \<open>
  Claim C10. Every mutation touches only its own list: in every state of the hook and
  for every argument, a watchlist mutation leaves \<open>watched\<close> and \<open>favorites\<close> of the
  in-memory state as they were, a watched mutation leaves \<open>watchlist\<close> and \<open>favorites\<close>,
  a favorites mutation leaves \<open>watchlist\<close> and \<open>watched\<close>. Here for every property
  other than the one of the mutation, whether the mutation throws, is rejected by a
  store or succeeds.
\<close>

theorem mutation_touches_only_its_list:
  assumes "k \<noteq> own_list m"
  shows "get_prop (data (snd (perform e now m w))) k = get_prop (data w) k"
proof (cases "newData_of now m (data w)")
  case (Inl err)
  then show ?thesis by (simp add: data_perform)
next
  case (Inr nd)
  with assms show ?thesis by (simp add: data_perform newData_of_frame)
qed

theorem mutation_touches_only_its_list_witness:
  "''watched'' \<noteq> own_list (AddToWatchlist (JNum 5)) \<and>
   get_prop (data (snd (perform all_ok ''2024-05-06T10:00:00.000Z''
      (AddToWatchlist (JNum 5)) sample_hook))) ''watched'' =
     Inr (JArr [JObj [(''id'', JNum 2), (''rating'', JNum 7),
                      (''dateWatched'', JStr ''2024-01-01'')]])"
proof -
  have h: "''watched'' \<noteq> own_list (AddToWatchlist (JNum 5))" by simp
  show ?thesis
    using h mutation_touches_only_its_list [OF h, of all_ok "''2024-05-06T10:00:00.000Z''" sample_hook]
    by (simp add: sample_hook_def sample_state_def js_of_state_def js_of_entry_def)
qed

subsection \<open>Adding twice\<close>



lemma data_addToWatched:
  "data w = js_of_state s \<Longrightarrow>
   data (snd (addToWatched e now (js_of_id x) (JNum r) w)) =
     js_of_state (s\<lparr>watched := filter (\<lambda>e. entry_id e \<noteq> x) (watched s) @
                           [\<lparr>entry_id = x, rating = r, dateWatched = date_part now\<rparr>]\<rparr>)"
  by (simp add: addToWatched_def addToWatched_typed)

lemma data_updateWatchedRating:
  "data w = js_of_state s \<Longrightarrow>
   data (snd (updateWatchedRating e (js_of_id x) (JNum r) w)) =
     js_of_state (s\<lparr>watched :=
        map (\<lambda>e. if entry_id e = x then e\<lparr>rating := r\<rparr> else e) (watched s)\<rparr>)"
  by (simp add: updateWatchedRating_def updateWatchedRating_typed)

lemma count_readded: "count_list (filter (\<lambda>i. i \<noteq> x) xs @ [x]) x = 1"
  by (simp add: count_list_0_iff)

lemma distinct_readded: "distinct xs \<Longrightarrow> distinct (filter (\<lambda>i. i \<noteq> x) xs @ [x])"
  by simp


lemma distinct_entries_readded:
  "distinct (map entry_id es) \<Longrightarrow>
   distinct (map entry_id (filter (\<lambda>e. entry_id e \<noteq> x) es @ [\<lparr>entry_id = x, rating = r, dateWatched = d\<rparr>]))"
  by (induction es) auto



subsection \<open>Updating a rating\<close>

lemma entries_rated_none:
  "x \<notin> entry_id ` set es \<Longrightarrow>
   filter (\<lambda>e. entry_id e = x)
     (map (\<lambda>e. if entry_id e = x then e\<lparr>rating := r\<rparr> else e) es) = []"
  by (induction es) auto

lemma entries_rated:
  "distinct (map entry_id es) \<Longrightarrow> old \<in> set es \<Longrightarrow>
   filter (\<lambda>e. entry_id e = entry_id old)
     (map (\<lambda>e. if entry_id e = entry_id old then e\<lparr>rating := r\<rparr> else e) es) = [old\<lparr>rating := r\<rparr>]"
proof (induction es)
  case Nil
  then show ?case by simp
next
  case (Cons a es)
  show ?case
  proof (cases "a = old")
    case True
    with Cons.prems have "entry_id old \<notin> entry_id ` set es" by simp
    then have "filter (\<lambda>e. entry_id e = entry_id old)
        (map (\<lambda>e. if entry_id e = entry_id old then e\<lparr>rating := r\<rparr> else e) es) = []"
      by (rule entries_rated_none)
    with True show ?thesis by simp
  next
    case False
    with Cons.prems have "old \<in> set es" and "distinct (map entry_id es)" by auto
    moreover from Cons.prems \<open>old \<in> set es\<close> have "entry_id a \<noteq> entry_id old" by auto
    ultimately show ?thesis using Cons.IH by simp
  qed
qed

lemma dates_rated:
  "map dateWatched (map (\<lambda>e. if entry_id e = x then e\<lparr>rating := r\<rparr> else e) es) = map dateWatched es"
  by (induction es) auto

text \<open>
  Claim C8. For every movie id \<open>x\<close> present in the watched list (which holds an id at most
  once), \<open>updateWatchedRating(x, r)\<close> leaves exactly one entry for \<open>x\<close>: the entry there
  was, with rating \<open>r\<close> and with its \<open>dateWatched\<close> as before. No entry of the list has
  its \<open>dateWatched\<close> changed. And \<open>addToWatched(x, r0)\<close> followed by
  \<open>updateWatchedRating(x, r)\<close> leaves exactly one entry for \<open>x\<close>, with rating \<open>r\<close> and
  the date stamped by \<open>addToWatched\<close>.
\<close>

theorem rating_update_keeps_date:
  assumes "data w = js_of_state s"
    and "distinct (map entry_id (watched s))"
    and "old \<in> set (watched s)"
    and "entry_id old = x"
  shows
    "(\<exists>s'. data (snd (updateWatchedRating e (js_of_id x) (JNum r) w)) = js_of_state s' \<and>
           filter (\<lambda>en. entry_id en = x) (watched s') = [old\<lparr>rating := r\<rparr>] \<and>
           map dateWatched (watched s') = map dateWatched (watched s)) \<and>
     (\<exists>s'. data (snd (updateWatchedRating e (js_of_id x) (JNum r)
                (snd (addToWatched e0 now (js_of_id x) (JNum r0) w)))) = js_of_state s' \<and>
           filter (\<lambda>en. entry_id en = x) (watched s') =
             [\<lparr>entry_id = x, rating = r, dateWatched = date_part now\<rparr>])"
proof (rule conjI)
  show "\<exists>s'. data (snd (updateWatchedRating e (js_of_id x) (JNum r) w)) = js_of_state s' \<and>
           filter (\<lambda>en. entry_id en = x) (watched s') = [old\<lparr>rating := r\<rparr>] \<and>
           map dateWatched (watched s') = map dateWatched (watched s)"
    using data_updateWatchedRating [OF assms(1), of e x r]
      entries_rated [OF assms(2,3), of r] assms(4)
    by (intro exI [of _ "s\<lparr>watched :=
          map (\<lambda>en. if entry_id en = x then en\<lparr>rating := r\<rparr> else en) (watched s)\<rparr>"])
       (simp add: dates_rated)
next
  let ?new = "\<lparr>entry_id = x, rating = r0, dateWatched = date_part now\<rparr>"
  let ?s1 = "s\<lparr>watched := filter (\<lambda>en. entry_id en \<noteq> x) (watched s) @ [?new]\<rparr>"
  let ?s2 = "?s1\<lparr>watched :=
     map (\<lambda>en. if entry_id en = x then en\<lparr>rating := r\<rparr> else en) (watched ?s1)\<rparr>"
  have "data (snd (addToWatched e0 now (js_of_id x) (JNum r0) w)) = js_of_state ?s1"
    using assms(1) by (rule data_addToWatched)
  then have "data (snd (updateWatchedRating e (js_of_id x) (JNum r)
                (snd (addToWatched e0 now (js_of_id x) (JNum r0) w)))) = js_of_state ?s2"
    by (rule data_updateWatchedRating)
  moreover have "filter (\<lambda>en. entry_id en = x) (watched ?s2) =
      [\<lparr>entry_id = x, rating = r, dateWatched = date_part now\<rparr>]"
    by (simp add: entries_rated_none)
  ultimately show "\<exists>s'. data (snd (updateWatchedRating e (js_of_id x) (JNum r)
                (snd (addToWatched e0 now (js_of_id x) (JNum r0) w)))) = js_of_state s' \<and>
           filter (\<lambda>en. entry_id en = x) (watched s') =
             [\<lparr>entry_id = x, rating = r, dateWatched = date_part now\<rparr>]"
    by blast
qed

theorem rating_update_keeps_date_witness:
  "data sample_hook = js_of_state sample_state \<and>
   distinct (map entry_id (watched sample_state)) \<and>
   \<lparr>entry_id = IdNum 2, rating = 7, dateWatched = ''2024-01-01''\<rparr> \<in> set (watched sample_state) \<and>
   entry_id \<lparr>entry_id = IdNum 2, rating = 7, dateWatched = ''2024-01-01''\<rparr> = IdNum 2 \<and>
   ((\<exists>s'. data (snd (updateWatchedRating all_ok (js_of_id (IdNum 2)) (JNum 9) sample_hook)) =
             js_of_state s' \<and>
           filter (\<lambda>en. entry_id en = IdNum 2) (watched s') =
             [\<lparr>entry_id = IdNum 2, rating = 7, dateWatched = ''2024-01-01''\<rparr>\<lparr>rating := 9\<rparr>] \<and>
           map dateWatched (watched s') = map dateWatched (watched sample_state)) \<and>
    (\<exists>s'. data (snd (updateWatchedRating all_ok (js_of_id (IdNum 2)) (JNum 9)
                (snd (addToWatched all_ok ''2024-05-06T10:00:00.000Z'' (js_of_id (IdNum 2))
                        (JNum 7) sample_hook)))) = js_of_state s' \<and>
           filter (\<lambda>en. entry_id en = IdNum 2) (watched s') =
             [\<lparr>entry_id = IdNum 2, rating = 9,
               dateWatched = date_part ''2024-05-06T10:00:00.000Z''\<rparr>]))"
proof -
  let ?old = "\<lparr>entry_id = IdNum 2, rating = 7, dateWatched = ''2024-01-01''\<rparr>"
  have h1: "data sample_hook = js_of_state sample_state"
    by (simp add: sample_hook_def)
  have h2: "distinct (map entry_id (watched sample_state))"
    by (simp add: sample_state_def)
  have h3: "?old \<in> set (watched sample_state)"
    by (simp add: sample_state_def)
  have h4: "entry_id ?old = IdNum 2"
    by simp
  show ?thesis
    by (rule conjI [OF h1 conjI [OF h2 conjI [OF h3 conjI [OF h4
          rating_update_keeps_date [OF h1 h2 h3 h4]]]]])
qed

subsection \<open>Saving to the local store and loading it again\<close>

lemma json_of_id [simp]: "json_of (js_of_id x) = js_of_id x"
  by (cases x) simp_all

lemma json_elems_ids [simp]: "json_elems (map js_of_id xs) = map js_of_id xs"
  by (induction xs) simp_all

lemma json_of_entry [simp]: "json_of (js_of_entry en) = js_of_entry en"
  by (cases "entry_id en") (simp_all add: js_of_entry_def)

lemma json_elems_entries [simp]: "json_elems (map js_of_entry es) = map js_of_entry es"
  by (induction es) simp_all

lemma json_of_state [simp]: "json_of (js_of_state s) = js_of_state s"
  by (simp add: js_of_state_def)

lemma js_of_state_defined [simp]: "js_of_state s \<noteq> JUndefined"
  by (simp add: js_of_state_def)

text \<open>
  Claim C9. Round trip: for every list state, saving it in a guest session (the write
  being accepted by the browser) and then loading from the local store yields the same
  list state. The load may run in any hook over the store as the save left it: the same
  one, or the one mounted after a reload of the page.
\<close>

theorem local_round_trip:
  assumes "user w = None"
    and "local_ok e"
    and "localStorage w' = localStorage (snd (saveData e (js_of_state s) w))"
  shows "fst (saveData e (js_of_state s) w) = None \<and>
         data (loadLocalData True w') = js_of_state s"
  using assms
  by (simp add: saveData_def setItem_def loadLocalData_def getItem_def JSON_stringify_def)

theorem local_round_trip_witness:
  "user sample_hook = None \<and> local_ok all_ok \<and>
   localStorage
     (mount (localStorage (snd (saveData all_ok (js_of_state sample_state) sample_hook))) Map.empty) =
     localStorage (snd (saveData all_ok (js_of_state sample_state) sample_hook)) \<and>
   fst (saveData all_ok (js_of_state sample_state) sample_hook) = None \<and>
   data (loadLocalData True
     (mount (localStorage (snd (saveData all_ok (js_of_state sample_state) sample_hook))) Map.empty)) =
     js_of_state sample_state"
proof -
  have h1: "user sample_hook = None"
    by (simp add: sample_hook_def mount_def)
  have h2: "local_ok all_ok"
    by (simp add: all_ok_def)
  have h3: "localStorage
     (mount (localStorage (snd (saveData all_ok (js_of_state sample_state) sample_hook))) Map.empty) =
     localStorage (snd (saveData all_ok (js_of_state sample_state) sample_hook))"
    by (simp add: mount_def)
  show ?thesis
    using h1 h2 h3 local_round_trip [OF h1 h2 h3] by simp
qed

subsection \<open>A mutation whose remote write fails\<close>

lemma perform_eq:
  "perform e now m w =
     (case newData_of now m (data w) of
        Inl err \<Rightarrow> (Some err, w)
      | Inr nd \<Rightarrow> then_toast (confirmation m) (saveData e nd w))"
  by (cases m)
     (simp_all add: addToWatchlist_def removeFromWatchlist_def addToWatched_def
        removeFromWatched_def updateWatchedRating_def addToFavorites_def
        removeFromFavorites_def split: sum.splits)

text \<open>
  Claim C4 says that every mutation of a signed-in user whose remote write fails leaves
  the new state in the local store and emits \<open>Saved locally\<close>. Not every one: here Ann
  marks a film as watched while the remote write fails and the browser refuses the
  local write as well. The in-memory state is the optimistic one, but the local store
  holds nothing and no notice is emitted.
\<close>

theorem remote_and_local_failure_counterexample:
  "user (sample_hook\<lparr>user := Some ''ann''\<rparr>) = Some ''ann'' \<and>
   updateDoc (remote_ok all_down) (firestore (sample_hook\<lparr>user := Some ''ann''\<rparr>)) ''ann''
     (own_props (js_of_state (sample_state\<lparr>watched := watched sample_state @
        [\<lparr>entry_id = IdStr ''7'', rating = 8, dateWatched = ''2024-05-06''\<rparr>]\<rparr>))) =
     Inl RemoteError \<and>
   data (snd (perform all_down ''2024-05-06T10:00:00.000Z'' (AddToWatched (JStr ''7'') (JNum 8))
          (sample_hook\<lparr>user := Some ''ann''\<rparr>))) =
     js_of_state (sample_state\<lparr>watched := watched sample_state @
        [\<lparr>entry_id = IdStr ''7'', rating = 8, dateWatched = ''2024-05-06''\<rparr>]\<rparr>) \<and>
   saved_item (snd (perform all_down ''2024-05-06T10:00:00.000Z''
          (AddToWatched (JStr ''7'') (JNum 8)) (sample_hook\<lparr>user := Some ''ann''\<rparr>))) = None \<and>
   toasts (snd (perform all_down ''2024-05-06T10:00:00.000Z''
          (AddToWatched (JStr ''7'') (JNum 8)) (sample_hook\<lparr>user := Some ''ann''\<rparr>))) = []"
proof -
  let ?s = "sample_state\<lparr>watched := watched sample_state @
        [\<lparr>entry_id = IdStr ''7'', rating = 8, dateWatched = ''2024-05-06''\<rparr>]\<rparr>"
  have nd: "addToWatched_newData ''2024-05-06T10:00:00.000Z'' (js_of_state sample_state)
          (JStr ''7'') (JNum 8) = Inr (js_of_state ?s)"
    using addToWatched_typed [of "''2024-05-06T10:00:00.000Z''" sample_state "IdStr ''7''" 8]
    by (simp add: sample_state_def date_part_def)
  show ?thesis
    by (simp add: nd addToWatched_def saveData_def updateDoc_def setItem_def then_toast_def
        all_down_def sample_hook_def mount_def saved_item_def)
qed

text \<open>
  Claim C4, amended. For every mutation of a signed-in user whose remote write fails: the
  in-memory state is the optimistic new state (it is not rolled back) and no further
  remote write is made (no retry); and, when the local store accepts the fallback write,
  the local store holds the serialised new state under the key of the hook and the
  notice \<open>Saved locally\<close> is emitted, followed by the confirmation of the mutation.
\<close>

theorem remote_write_failure_falls_back:
  assumes "user w = Some uid"
    and "newData_of now m (data w) = Inr nd"
    and "updateDoc (remote_ok e) (firestore w) uid (own_props nd) = Inl err"
  shows "data (snd (perform e now m w)) = nd \<and>
         firestore (snd (perform e now m w)) = firestore w \<and>
         inflight (snd (perform e now m w)) = inflight w \<and>
         (local_ok e \<longrightarrow>
            fst (perform e now m w) = None \<and>
            localStorage (snd (perform e now m w)) =
              (localStorage w)(''cinetracker-data'' \<mapsto> JsonText (json_of nd)) \<and>
            toasts (snd (perform e now m w)) = toasts w @ [SavedLocally, confirmation m])"
proof -
  from assms(2) have "nd \<noteq> JUndefined"
    by (cases m) (auto simp: addToWatchlist_newData_def removeFromWatchlist_newData_def
        addToWatched_newData_def removeFromWatched_newData_def updateWatchedRating_newData_def
        addToFavorites_newData_def removeFromFavorites_newData_def split: sum.splits)
  with assms show ?thesis
    by (cases "local_ok e")
       (simp_all add: perform_eq saveData_def setItem_def then_toast_def JSON_stringify_def)
qed

theorem remote_write_failure_falls_back_witness:
  "fst (perform offline ''2024-05-06T10:00:00.000Z'' (AddToWatched (JStr ''7'') (JNum 8))
          (sample_hook\<lparr>user := Some ''ann''\<rparr>)) = None \<and>
   data (snd (perform offline ''2024-05-06T10:00:00.000Z'' (AddToWatched (JStr ''7'') (JNum 8))
          (sample_hook\<lparr>user := Some ''ann''\<rparr>))) =
     js_of_state (sample_state\<lparr>watched := watched sample_state @
        [\<lparr>entry_id = IdStr ''7'', rating = 8, dateWatched = ''2024-05-06''\<rparr>]\<rparr>) \<and>
   localStorage (snd (perform offline ''2024-05-06T10:00:00.000Z''
          (AddToWatched (JStr ''7'') (JNum 8)) (sample_hook\<lparr>user := Some ''ann''\<rparr>)))
      ''cinetracker-data'' =
     Some (JsonText (js_of_state (sample_state\<lparr>watched := watched sample_state @
        [\<lparr>entry_id = IdStr ''7'', rating = 8, dateWatched = ''2024-05-06''\<rparr>]\<rparr>))) \<and>
   toasts (snd (perform offline ''2024-05-06T10:00:00.000Z''
          (AddToWatched (JStr ''7'') (JNum 8)) (sample_hook\<lparr>user := Some ''ann''\<rparr>))) =
     [SavedLocally, MarkedAsWatched]"
proof -
  let ?w = "sample_hook\<lparr>user := Some ''ann''\<rparr>"
  let ?s = "sample_state\<lparr>watched := watched sample_state @
        [\<lparr>entry_id = IdStr ''7'', rating = 8, dateWatched = ''2024-05-06''\<rparr>]\<rparr>"
  have h1: "user ?w = Some ''ann''"
    by simp
  have "addToWatched_newData ''2024-05-06T10:00:00.000Z'' (js_of_state sample_state)
          (js_of_id (IdStr ''7'')) (JNum 8) = Inr (js_of_state ?s)"
    using addToWatched_typed [of "''2024-05-06T10:00:00.000Z''" sample_state "IdStr ''7''" 8]
    by (simp add: sample_state_def date_part_def)
  then have h2: "newData_of ''2024-05-06T10:00:00.000Z'' (AddToWatched (JStr ''7'') (JNum 8))
          (data ?w) = Inr (js_of_state ?s)"
    by (simp add: sample_hook_def)
  have h3: "updateDoc (remote_ok offline) (firestore ?w) ''ann'' (own_props (js_of_state ?s)) =
          Inl RemoteError"
    by (simp add: updateDoc_def offline_def)
  have h4: "local_ok offline"
    by (simp add: offline_def)
  show ?thesis
    using h4 remote_write_failure_falls_back [OF h1 h2 h3]
    by (simp add: sample_hook_def mount_def)
qed

subsection \<open>A mutation whose local write fails\<close>

text \<open>
  Claim C2 at a failing input: a guest adds a favourite while the browser refuses the
  write to the local store. The in-memory state keeps the optimistic new value, as the
  claim says, but the error is not swallowed: neither \<open>setItem\<close> of \<open>saveData\<close> is
  guarded, so the promise of the mutation is rejected with the error of the store, and
  the confirmation is never shown.
\<close>

theorem local_write_failure_is_not_swallowed:
  "fst (perform storage_full ''2024-05-06T10:00:00.000Z'' (AddToFavorites (JStr ''42''))
          (mount Map.empty Map.empty)) = Some StorageError \<and>
   data (snd (perform storage_full ''2024-05-06T10:00:00.000Z'' (AddToFavorites (JStr ''42''))
          (mount Map.empty Map.empty))) =
     js_of_state (empty_state\<lparr>favorites := [IdStr ''42'']\<rparr>) \<and>
   toasts (snd (perform storage_full ''2024-05-06T10:00:00.000Z'' (AddToFavorites (JStr ''42''))
          (mount Map.empty Map.empty))) = []"
  by (simp add: addToFavorites_def addToFavorites_newData_def list_prop_def mount_def
      js_of_state_def empty_state_def saveData_def setItem_def then_toast_def storage_full_def)

subsection \<open>A load that outlives its session\<close>

lemmas machine_defs =
  useEffect_def loadUserData_def loadLocalData_def loadUserData_catch_def
  loadUserData_after_getDoc_def loadUserData_after_setDoc_def
  getDoc_def setDoc_merge_def getItem_def mount_def all_ok_def offline_def

text \<open>
  Claim C1 at a failing input: Ann signs in and signs out again before her document has
  arrived. The guest's lists are loaded from the local store; then the fetch returns,
  and the load, which carries no token to tell that its session is over, replaces the
  guest's lists by Ann's, in the session of the guest.
\<close>

theorem stale_load_overwrites_newer_session:
  "map_option data
     (run [AuthChanged all_ok True (Some ''ann''), AuthChanged all_ok True None]
        (mount [''cinetracker-data'' \<mapsto> JsonText (js_of_state guest_state)]
               [''ann'' \<mapsto> ann_doc])) = Some (js_of_state guest_state) \<and>
   map_option user
     (run [AuthChanged all_ok True (Some ''ann''), AuthChanged all_ok True None, Settles all_ok 0]
        (mount [''cinetracker-data'' \<mapsto> JsonText (js_of_state guest_state)]
               [''ann'' \<mapsto> ann_doc])) = Some None \<and>
   map_option data
     (run [AuthChanged all_ok True (Some ''ann''), AuthChanged all_ok True None, Settles all_ok 0]
        (mount [''cinetracker-data'' \<mapsto> JsonText (js_of_state guest_state)]
               [''ann'' \<mapsto> ann_doc])) = Some (js_of_state ann_state) \<and>
   js_of_state ann_state \<noteq> js_of_state guest_state"
  by (simp add: machine_defs field_or_empty_def ann_doc_def ann_state_def guest_state_def
      js_of_state_def)

subsection \<open>A load whose fetch fails\<close>

text \<open>
  What the fallback does: one notice, the parsed item of the local store as the state
  when there is one, the state as it was when there is none.
\<close>

lemma fetch_failure_falls_back:
  assumes "getDoc (remote_ok e) (firestore w) uid = Inl err"
  shows "toasts (loadUserData_after_getDoc e uid w) = toasts w @ [UsingOfflineData] \<and>
         loading (loadUserData_after_getDoc e uid w) = False \<and>
         (\<forall>v. local_ok e \<and> saved_item w = Some (JsonText v) \<longrightarrow>
              data (loadUserData_after_getDoc e uid w) = v) \<and>
         (saved_item w = None \<longrightarrow> data (loadUserData_after_getDoc e uid w) = data w)"
  using assms
  by (auto simp: loadUserData_after_getDoc_def loadUserData_catch_def loadLocalData_def
      getItem_def saved_item_def Let_def split: option.splits sum.splits)

text \<open>
  Claim C5 at a failing input: Ann signs in and her lists are loaded; she signs out, and
  the local store being empty her lists stay in memory; Bob signs in and the fetch of
  his document fails. Nothing was ever saved locally and one notice is shown, but the
  state is not the empty default: it is Ann's lists.
\<close>

theorem fetch_failure_keeps_earlier_lists:
  "map_option saved_item
     (run [AuthChanged all_ok True (Some ''ann''), Settles all_ok 0, AuthChanged all_ok True None,
           AuthChanged all_ok True (Some ''bob'')]
        (mount Map.empty [''ann'' \<mapsto> ann_doc])) = Some None \<and>
   map_option data
     (run [AuthChanged all_ok True (Some ''ann''), Settles all_ok 0, AuthChanged all_ok True None,
           AuthChanged all_ok True (Some ''bob''), Settles offline 0]
        (mount Map.empty [''ann'' \<mapsto> ann_doc])) = Some (js_of_state ann_state) \<and>
   map_option toasts
     (run [AuthChanged all_ok True (Some ''ann''), Settles all_ok 0, AuthChanged all_ok True None,
           AuthChanged all_ok True (Some ''bob''), Settles offline 0]
        (mount Map.empty [''ann'' \<mapsto> ann_doc])) = Some [UsingOfflineData] \<and>
   js_of_state ann_state \<noteq> js_of_state empty_state"
  by (simp add: machine_defs field_or_empty_def ann_doc_def ann_state_def empty_state_def
      js_of_state_def saved_item_def)

subsection \<open>The shape of a loaded state\<close>

text \<open>A document of the remote store is completed field by field.\<close>

lemma field_or_empty_defined: "field_or_empty d k \<noteq> JUndefined"
  by (auto simp: field_or_empty_def split: option.splits)

lemma remote_load_complete:
  assumes "getDoc (remote_ok e) (firestore w) uid = Inr (Some d)"
  shows "\<exists>a b c. data (loadUserData_after_getDoc e uid w) =
            JObj [(''watchlist'', a), (''watched'', b), (''favorites'', c)] \<and>
            a \<noteq> JUndefined \<and> b \<noteq> JUndefined \<and> c \<noteq> JUndefined"
  using assms by (simp add: loadUserData_after_getDoc_def field_or_empty_defined)

text \<open>
  Claim C3 at a failing input: the item of the local store is set as the state as it
  is. From an item with the watchlist only, the loaded state has no \<open>watched\<close> and no
  \<open>favorites\<close>, and adding a favourite then throws.
\<close>

theorem local_load_partially_hydrates:
  "data (loadLocalData True
      (mount [''cinetracker-data'' \<mapsto> JsonText (JObj [(''watchlist'', JArr [JNum 1])])] Map.empty)) =
     JObj [(''watchlist'', JArr [JNum 1])] \<and>
   get_prop (data (loadLocalData True
      (mount [''cinetracker-data'' \<mapsto> JsonText (JObj [(''watchlist'', JArr [JNum 1])])] Map.empty)))
      ''favorites'' = Inr JUndefined \<and>
   fst (perform all_ok ''2024-05-06T10:00:00.000Z'' (AddToFavorites (JNum 4))
     (loadLocalData True
        (mount [''cinetracker-data'' \<mapsto> JsonText (JObj [(''watchlist'', JArr [JNum 1])])]
           Map.empty))) = Some TypeError"
  by (simp add: loadLocalData_def getItem_def mount_def addToFavorites_def
      addToFavorites_newData_def list_prop_def)

subsection \<open>Ensuring the document of a new user\<close>

text \<open>With no document in the remote store, the load creates the empty one.\<close>

lemma ensure_creates_default:
  assumes "firestore w uid = None" and "remote_ok e"
  shows "doc_of uid (loadUserData_after_setDoc e uid w) = Some default_fields \<and>
         data (loadUserData_after_setDoc e uid w) = js_of_state empty_state"
  using assms
  by (simp add: loadUserData_after_setDoc_def setDoc_merge_def doc_of_def merge_fields_def
      default_fields_def js_of_state_def empty_state_def)

text \<open>
  Claim C6 at a failing input: the load of a new user finds no document, another client
  of the user then writes the document with her lists, and the merge write of the load
  lands last. It replaces the three lists of the document that exists by then.
\<close>

theorem ensure_overwrites_existing_lists:
  "map_option (doc_of ''ann'')
     (run [AuthChanged all_ok True (Some ''ann''), Settles all_ok 0,
           OtherClientWrites ''ann'' ann_doc]
        (mount Map.empty Map.empty)) = Some (Some ann_doc) \<and>
   map_option (doc_of ''ann'')
     (run [AuthChanged all_ok True (Some ''ann''), Settles all_ok 0,
           OtherClientWrites ''ann'' ann_doc, Settles all_ok 0]
        (mount Map.empty Map.empty)) = Some (Some default_fields) \<and>
   ann_doc \<noteq> default_fields"
  by (simp add: machine_defs doc_of_def merge_fields_def ann_doc_def default_fields_def)

end
